theory Spec2Isabelle
  imports Main
begin

section \<open>Room handlers of \<^verbatim>\<open>synapse/api/handlers/room.py\<close>\<close>

text \<open>
  The handlers are Twisted \<^verbatim>\<open>inlineCallbacks\<close> generators over an event store.  They are
  embedded as functions that take the store's state and return the outcome (an exception
  on the left, the returned value on the right) together with the store's new state.
\<close>

subsection \<open>Python values\<close>

text \<open>
  The exceptions the handlers can end with.  \<^verbatim>\<open>RoomError(code, msg)\<close> carries the HTTP
  status (403, 409 or 500); \<open>StoreException\<close> is the store's fault signal;
  \<open>UnboundLocalError v\<close> is Python's error for reading the local variable \<open>v\<close> before
  any assignment to it; \<open>KeyError k\<close> is a missing dictionary key.
\<close>

datatype exn =
    RoomError nat string
  | StoreException
  | UnboundLocalError string
  | KeyError string

text \<open>
  A Twisted \<^verbatim>\<open>Deferred\<close>, by the outcome it fires with: a value, or the store's failure.
  \<^verbatim>\<open>yield d\<close> inside an \<^verbatim>\<open>inlineCallbacks\<close> generator gives the value or raises the
  failure.  The object itself defines neither \<^verbatim>\<open>__nonzero__\<close> nor \<^verbatim>\<open>__len__\<close>, so
  \<^verbatim>\<open>not d\<close> is \<^verbatim>\<open>False\<close> whatever the outcome.
\<close>

datatype 'a deferred = Succeed 'a | Fail

definition yield_value :: "'a deferred \<Rightarrow> exn + 'a" where
  "yield_value d = (case d of Succeed v \<Rightarrow> Inr v | Fail \<Rightarrow> Inl StoreException)"

definition truthy_deferred :: "'a deferred \<Rightarrow> bool" where
  "truthy_deferred d = True"

text \<open>
  What a store query returns: \<^verbatim>\<open>None\<close> or a list of rows.  Both \<^verbatim>\<open>None\<close> and the empty
  list are false in a condition.
\<close>

datatype 'a rows = NoneRows | Rows "'a list"

fun truthy_rows :: "'a rows \<Rightarrow> bool" where
  "truthy_rows NoneRows = False"
| "truthy_rows (Rows []) = False"
| "truthy_rows (Rows (x # xs)) = True"

text \<open>\<^verbatim>\<open>rows[0]\<close>, used by the handlers only behind a truthiness test.\<close>

fun first_row :: "'a rows \<Rightarrow> 'a option" where
  "first_row NoneRows = None"
| "first_row (Rows []) = None"
| "first_row (Rows (x # xs)) = Some x"

text \<open>Truthiness of a string or \<^verbatim>\<open>None\<close>: \<^verbatim>\<open>None\<close> and the empty string are false.\<close>

fun truthy_str :: "string option \<Rightarrow> bool" where
  "truthy_str None = False"
| "truthy_str (Some s) = (s \<noteq> [])"

text \<open>\<^verbatim>\<open>"%s" % x\<close> for a string or \<^verbatim>\<open>None\<close>.\<close>

fun py_str :: "string option \<Rightarrow> string" where
  "py_str None = ''None''"
| "py_str (Some s) = s"

text \<open>\<^verbatim>\<open>"%s" % n\<close> for a non-negative integer: its decimal digits.\<close>

fun str_nat :: "nat \<Rightarrow> string" where
  "str_nat n =
     (if n < 10 then [''0123456789'' ! n]
      else str_nat (n div 10) @ [''0123456789'' ! (n mod 10)])"

declare str_nat.simps [simp del]

text \<open>JSON content of an event, and the string \<^verbatim>\<open>json.dumps\<close> makes of it (kept symbolic).\<close>

datatype json = JNull | JBool bool | JNum int | JStr string | JObj "(string \<times> json) list"

datatype dumped = JsonDumps json

subsection \<open>The membership enum, events and rows\<close>

text \<open>\<^verbatim>\<open>class Membership\<close>: four string constants.\<close>

definition INVITE :: string where "INVITE = ''invite''"
definition JOIN :: string where "JOIN = ''join''"
definition KNOCK :: string where "KNOCK = ''knock''"
definition LEAVE :: string where "LEAVE = ''leave''"

text \<open>The attributes of store rows that the handlers read.\<close>

record room_row =
  is_public :: bool

record member_row =
  membership :: string

text \<open>
  The inbound event.  \<open>auth_user_id\<close> is the authenticated caller, \<^verbatim>\<open>None\<close> for a
  system call; \<open>user_id\<close> is the target (or the author of a message).
\<close>

record event =
  etype :: string
  room_id :: string
  user_id :: string
  auth_user_id :: "string option"
  membership :: "string option"
  content :: json
  msg_id :: string

text \<open>
  The constants of \<^verbatim>\<open>synapse.api.events.room\<close> and the clock, which the handlers read:
  \<^verbatim>\<open>RoomTopicEvent.TYPE\<close>, \<^verbatim>\<open>MessageEvent.TYPE\<close> and \<^verbatim>\<open>int(time.time())\<close>.
\<close>

record env =
  RoomTopicEvent_TYPE :: string
  MessageEvent_TYPE :: string
  time_time :: nat

subsection \<open>The store\<close>

text \<open>
  The event store, which the handlers call as \<^verbatim>\<open>self.store\<close>
  (\<^verbatim>\<open>synapse.api.event_store\<close>), is not among the sources.  It is a parameter of every
  handler: a record of its operations over a state \<open>'s\<close> that is left abstract, with the
  arguments the handlers pass.  Every operation returns a \<^verbatim>\<open>Deferred\<close>, which the handlers
  \<^verbatim>\<open>yield\<close>; a query leaves the state as it is, a write returns the new state.
\<close>

record 's store =
  st_get_room :: "'s \<Rightarrow> string \<Rightarrow> room_row rows deferred"
  st_store_room :: "'s \<Rightarrow> string option \<Rightarrow> string \<Rightarrow> bool \<Rightarrow> string option deferred \<times> 's"
  st_get_room_member :: "'s \<Rightarrow> string option \<Rightarrow> string \<Rightarrow> member_row rows deferred"
  st_store_room_member ::
    "'s \<Rightarrow> string \<Rightarrow> string \<Rightarrow> json \<Rightarrow> string option \<Rightarrow> unit deferred \<times> 's"
  st_store_message :: "'s \<Rightarrow> string \<Rightarrow> string \<Rightarrow> string \<Rightarrow> dumped \<Rightarrow> unit deferred \<times> 's"
  st_get_path_data :: "'s \<Rightarrow> string \<Rightarrow> dumped rows deferred"

subsection \<open>\<^verbatim>\<open>_get_joined_or_throw\<close>\<close>

text \<open>The message of its error ends with a stray apostrophe in the source.\<close>

definition not_joined_msg :: string where
  "not_joined_msg = ''Haven't joined room.'' @ [CHR 0x27]"

definition get_joined_or_throw ::
  "'s store \<Rightarrow> 's \<Rightarrow> string option \<Rightarrow> string \<Rightarrow> exn + member_row rows" where
  "get_joined_or_throw st s uid rid =
     (case yield_value (st_get_room_member st s uid rid) of
        Inl e \<Rightarrow> Inl e
      | Inr member \<Rightarrow>
          (case first_row member of
             None \<Rightarrow> Inl (RoomError 403 not_joined_msg)
           | Some m \<Rightarrow>
               if member_row.membership m \<noteq> ''join''
               then Inl (RoomError 403 not_joined_msg)
               else Inr member))"

subsection \<open>\<^verbatim>\<open>MessageHandler\<close>\<close>

text \<open>
  \<^verbatim>\<open>send_message\<close>: with a requester (\<^verbatim>\<open>if event.auth_user_id\<close>), the author must be the
  requester and the requester must be joined; then the message is stored.
\<close>

definition send_message :: "'s store \<Rightarrow> 's \<Rightarrow> event \<Rightarrow> (exn + unit) \<times> 's" where
  "send_message st s ev =
     (let checked =
        (if truthy_str (auth_user_id ev) then
           (if Some (user_id ev) \<noteq> auth_user_id ev
            then Inl (RoomError 403 ''Must send messages as yourself.'')
            else (case get_joined_or_throw st s (auth_user_id ev) (room_id ev) of
                    Inl e \<Rightarrow> Inl e
                  | Inr _ \<Rightarrow> Inr ()))
         else Inr ())
      in case checked of
           Inl e \<Rightarrow> (Inl e, s)
         | Inr _ \<Rightarrow>
             (case st_store_message st s (user_id ev) (room_id ev) (msg_id ev)
                     (JsonDumps (content ev)) of
                (d, s') \<Rightarrow> (yield_value d, s')))"

text \<open>
  \<^verbatim>\<open>get_room_path_data\<close>.  The two rule lists are keyword arguments with the defaults
  \<^verbatim>\<open>[]\<close> and \<^verbatim>\<open>["join"]\<close>; \<open>None\<close> here is an argument left out.  The topic override
  rebinds the local name \<^verbatim>\<open>private_room_rules\<close>; no list is modified.
\<close>

definition default_public_room_rules :: "string list" where
  "default_public_room_rules = []"

definition default_private_room_rules :: "string list" where
  "default_private_room_rules = [''join'']"

text \<open>\<^verbatim>\<open>member_state in rules\<close>, where \<^verbatim>\<open>member_state\<close> may be \<^verbatim>\<open>None\<close>.\<close>

fun state_in :: "string option \<Rightarrow> string list \<Rightarrow> bool" where
  "state_in None rules = False"
| "state_in (Some m) rules = (m \<in> set rules)"

definition get_room_path_data ::
  "'s store \<Rightarrow> env \<Rightarrow> 's \<Rightarrow> event \<Rightarrow> string \<Rightarrow> string list option \<Rightarrow> string list option
     \<Rightarrow> exn + dumped rows" where
  "get_room_path_data st env s ev path public_arg private_arg =
     (let public_room_rules =
            (case public_arg of None \<Rightarrow> default_public_room_rules | Some r \<Rightarrow> r);
          private_room_rules =
            (case private_arg of None \<Rightarrow> default_private_room_rules | Some r \<Rightarrow> r);
          private_room_rules =
            (if etype ev = RoomTopicEvent_TYPE env then [''invite'', ''join'']
             else private_room_rules)
      in case yield_value (st_get_room st s (room_id ev)) of
           Inl e \<Rightarrow> Inl e
         | Inr room \<Rightarrow>
             (case first_row room of
                None \<Rightarrow> Inl (RoomError 403 ''Room does not exist.'')
              | Some room0 \<Rightarrow>
                  (case yield_value
                          (st_get_room_member st s
                             (if \<not> truthy_str (auth_user_id ev) then Some []
                              else auth_user_id ev)
                             (room_id ev)) of
                     Inl e \<Rightarrow> Inl e
                   | Inr member \<Rightarrow>
                       (let member_state = map_option member_row.membership (first_row member)
                        in if is_public room0 \<and> public_room_rules \<noteq> [] then
                             (if \<not> state_in member_state public_room_rules
                              then Inl (RoomError 403 ''Member does not meet public room rules.'')
                              else yield_value (st_get_path_data st s path))
                           else if \<not> is_public room0 \<and> private_room_rules \<noteq> [] then
                             (if \<not> state_in member_state private_room_rules
                              then Inl (RoomError 403 ''Member does not meet private room rules.'')
                              else yield_value (st_get_path_data st s path))
                           else yield_value (st_get_path_data st s path)))))"

subsection \<open>\<^verbatim>\<open>RoomCreationHandler\<close>\<close>

text \<open>
  \<^verbatim>\<open>create_room\<close>.  \<^verbatim>\<open>config["visibility"]\<close> is read inside the \<^verbatim>\<open>try\<close>, before the
  store is called; a missing key is a \<^verbatim>\<open>KeyError\<close>, which \<^verbatim>\<open>except StoreException\<close> lets
  through.  A store result that is \<^verbatim>\<open>None\<close> or empty is a conflict.
\<close>

definition create_room ::
  "'s store \<Rightarrow> 's \<Rightarrow> string \<Rightarrow> string option \<Rightarrow> (string \<rightharpoonup> string) \<Rightarrow> (exn + string) \<times> 's" where
  "create_room st s uid rid config =
     (case config ''visibility'' of
        None \<Rightarrow> (Inl (KeyError ''visibility''), s)
      | Some visibility \<Rightarrow>
          (case st_store_room st s rid uid (visibility = ''public'') of
             (d, s') \<Rightarrow>
               (case yield_value d of
                  Inl StoreException \<Rightarrow> (Inl (RoomError 500 ''Unable to create room.''), s')
                | Inl e \<Rightarrow> (Inl e, s')
                | Inr new_room_id \<Rightarrow>
                    (if \<not> truthy_str new_room_id
                     then (Inl (RoomError 409 ''Room ID in use.''), s')
                     else (Inr (py_str new_room_id), s')))))"

subsection \<open>\<^verbatim>\<open>RoomMemberHandler\<close>\<close>



text \<open>
  \<^verbatim>\<open>_inject_membership_msg\<close>: the body from the template of the new state, wrapped in a
  message event of the author \<^verbatim>\<open>"_hs_"\<close> with \<^verbatim>\<open>auth_user_id=None\<close>, and sent through
  \<^verbatim>\<open>send_message\<close>.
\<close>

definition membership_msg_event :: "env \<Rightarrow> string \<Rightarrow> string \<Rightarrow> event" where
  "membership_msg_event env rid body =
     \<lparr>etype = MessageEvent_TYPE env,
      room_id = rid,
      user_id = ''_hs_'',
      auth_user_id = None,
      membership = None,
      content = JObj [(''msgtype'', JStr ''sy.text''), (''body'', JStr body)],
      msg_id = ''m'' @ str_nat (time_time env)\<rparr>"

definition inject_membership_msg ::
  "'s store \<Rightarrow> env \<Rightarrow> 's \<Rightarrow> string \<Rightarrow> string option \<Rightarrow> string \<Rightarrow> string option
     \<Rightarrow> (exn + unit) \<times> 's" where
  "inject_membership_msg st env s rid source target mship =
     (if mship = Some INVITE then
        send_message st s
          (membership_msg_event env rid (py_str source @ '' invited '' @ target @ '' to the room.''))
      else if mship = Some JOIN then
        send_message st s (membership_msg_event env rid (target @ '' joined the room.''))
      else if mship = Some LEAVE then
        send_message st s (membership_msg_event env rid (target @ '' left the room.''))
      else (Inl (RoomError 500 (''Unknown membership value '' @ py_str mship)), s))"

text \<open>
  \<^verbatim>\<open>change_membership\<close>.  Three points of the source are kept as they are written:
  \<^item> \<^verbatim>\<open>room = self.store.get_room(event.room_id)\<close> has no \<^verbatim>\<open>yield\<close>, so \<^verbatim>\<open>room\<close> is the
    \<^verbatim>\<open>Deferred\<close> and \<^verbatim>\<open>if not room\<close> tests the object;
  \<^item> each membership lookup sits in \<^verbatim>\<open>try: ... except: pass\<close>, and its variable has no
    assignment before the \<^verbatim>\<open>try\<close>: a lookup that fails leaves the variable unbound
    (\<open>None\<close> below), and the next statement reads it;
  \<^item> every \<^verbatim>\<open>raise\<close> comes before \<^verbatim>\<open>store_room_member\<close>.

  \<open>membership_check\<close> is the \<^verbatim>\<open>if ... elif ... else\<close> chain over \<^verbatim>\<open>event.membership\<close>
  with the two \<^verbatim>\<open>..._in_room\<close> values it reads: the error it raises, or \<open>None\<close> when it
  falls through to the write.
\<close>

definition membership_check ::
  "event \<Rightarrow> member_row rows \<Rightarrow> member_row rows \<Rightarrow> exn option" where
  "membership_check ev caller target =
     (let caller_in_room =
            (truthy_rows caller \<and> map_option member_row.membership (first_row caller) = Some ''join'');
          target_in_room =
            (truthy_rows target \<and> map_option member_row.membership (first_row target) = Some ''join'')
      in if Some INVITE = membership ev then
           (if \<not> caller_in_room \<or> target_in_room
            then Some (RoomError 403 ''Cannot invite.'') else None)
         else if Some JOIN = membership ev then
           (if auth_user_id ev \<noteq> Some (user_id ev) \<or> \<not> truthy_rows caller \<or>
               (case first_row caller of
                  None \<Rightarrow> True
                | Some m \<Rightarrow> member_row.membership m \<notin> set [INVITE, JOIN])
            then Some (RoomError 403 ''Cannot join.'') else None)
         else if Some LEAVE = membership ev then
           (if \<not> caller_in_room \<or> Some (user_id ev) \<noteq> auth_user_id ev
            then Some (RoomError 403 ''Cannot leave.'') else None)
         else Some (RoomError 500 (''Unknown membership '' @ py_str (membership ev))))"

definition change_membership ::
  "'s store \<Rightarrow> env \<Rightarrow> 's \<Rightarrow> event \<Rightarrow> bool \<Rightarrow> (exn + unit) \<times> 's" where
  "change_membership st env s ev broadcast_msg =
     (let room = st_get_room st s (room_id ev)
      in if \<not> truthy_deferred room then (Inl (RoomError 403 ''Room does not exist''), s)
         else
           (let caller =
              (case yield_value (st_get_room_member st s (auth_user_id ev) (room_id ev)) of
                 Inr v \<Rightarrow> Some v
               | Inl _ \<Rightarrow> None)
            in case caller of
                 None \<Rightarrow> (Inl (UnboundLocalError ''caller''), s)
               | Some caller \<Rightarrow>
                   (let target =
                      (case yield_value
                              (st_get_room_member st s (Some (user_id ev)) (room_id ev)) of
                         Inr v \<Rightarrow> Some v
                       | Inl _ \<Rightarrow> None)
                    in case target of
                         None \<Rightarrow> (Inl (UnboundLocalError ''target''), s)
                       | Some target \<Rightarrow>
                           (case membership_check ev caller target of
                              Some e \<Rightarrow> (Inl e, s)
                            | None \<Rightarrow>
                                (case st_store_room_member st s (user_id ev) (room_id ev)
                                        (content ev) (membership ev) of
                                   (d, s') \<Rightarrow>
                                     (case yield_value d of
                                        Inl e \<Rightarrow> (Inl e, s')
                                      | Inr _ \<Rightarrow>
                                          if broadcast_msg
                                          then inject_membership_msg st env s' (room_id ev)
                                                 (auth_user_id ev) (user_id ev) (membership ev)
                                          else (Inr (), s')))))))"

subsection \<open>An in-memory store\<close>

text \<open>
  Modelled from the spec: an implementation of the event store
  (\<^verbatim>\<open>synapse.api.event_store\<close>, not among the sources) after the store contract: rooms
  unique by id, \<^verbatim>\<open>store_room\<close> answering \<^verbatim>\<open>None\<close> for an id in use, the latest
  membership written for a (room, user) pair being the current one.  The theorems below
  are about every store; this one supplies the concrete runs.
\<close>

record mem =
  mem_rooms :: "(string \<times> room_row) list"
  mem_members :: "((string \<times> string option) \<times> member_row) list"
  mem_messages :: "(string \<times> string \<times> string \<times> dumped) list"
  mem_paths :: "(string \<times> dumped) list"

definition mem_empty :: mem where
  "mem_empty = \<lparr>mem_rooms = [], mem_members = [], mem_messages = [], mem_paths = []\<rparr>"

definition lookup_rows :: "('k \<times> 'v) list \<Rightarrow> 'k \<Rightarrow> 'v rows" where
  "lookup_rows tab k = (case map_of tab k of None \<Rightarrow> Rows [] | Some v \<Rightarrow> Rows [v])"

text \<open>An id longer than every id in use, for a room created without one.\<close>

definition fresh_room_id :: "(string \<times> room_row) list \<Rightarrow> string" where
  "fresh_room_id tab = replicate (Suc (foldr max (map (length \<circ> fst) tab) 0)) (CHR ''!'')"

definition mem_store_room ::
  "mem \<Rightarrow> string option \<Rightarrow> string \<Rightarrow> bool \<Rightarrow> string option deferred \<times> mem" where
  "mem_store_room s rid uid pub =
     (let i = (case rid of None \<Rightarrow> fresh_room_id (mem_rooms s) | Some r \<Rightarrow> r)
      in if map_of (mem_rooms s) i = None
         then (Succeed (Some i), s\<lparr>mem_rooms := (i, \<lparr>is_public = pub\<rparr>) # mem_rooms s\<rparr>)
         else (Succeed None, s))"

definition mem_store_room_member ::
  "mem \<Rightarrow> string \<Rightarrow> string \<Rightarrow> json \<Rightarrow> string option \<Rightarrow> unit deferred \<times> mem" where
  "mem_store_room_member s uid rid c m =
     (case m of
        None \<Rightarrow> (Fail, s)
      | Some state \<Rightarrow>
          (Succeed (),
           s\<lparr>mem_members := ((rid, Some uid), \<lparr>member_row.membership = state\<rparr>) # mem_members s\<rparr>))"

definition mem_store_message ::
  "mem \<Rightarrow> string \<Rightarrow> string \<Rightarrow> string \<Rightarrow> dumped \<Rightarrow> unit deferred \<times> mem" where
  "mem_store_message s uid rid mid c =
     (Succeed (), s\<lparr>mem_messages := mem_messages s @ [(uid, rid, mid, c)]\<rparr>)"

definition mem_store :: "mem store" where
  "mem_store =
     \<lparr>st_get_room = (\<lambda>s rid. Succeed (lookup_rows (mem_rooms s) rid)),
      st_store_room = mem_store_room,
      st_get_room_member = (\<lambda>s uid rid. Succeed (lookup_rows (mem_members s) (rid, uid))),
      st_store_room_member = mem_store_room_member,
      st_store_message = mem_store_message,
      st_get_path_data = (\<lambda>s path. Succeed (lookup_rows (mem_paths s) path))\<rparr>"

text \<open>The same store with the membership lookup of one user failing.\<close>

definition failing_lookup_store :: "string option \<Rightarrow> mem store" where
  "failing_lookup_store u =
     mem_store\<lparr>st_get_room_member :=
       (\<lambda>s uid rid. if uid = u then Fail else st_get_room_member mem_store s uid rid)\<rparr>"

text \<open>The same store with \<^verbatim>\<open>store_room\<close> failing.\<close>

definition failing_room_store :: "mem store" where
  "failing_room_store = mem_store\<lparr>st_store_room := (\<lambda>s rid uid pub. (Fail, s))\<rparr>"

text \<open>The constants of the event classes, and a clock reading, for the concrete runs.\<close>

definition env0 :: env where
  "env0 = \<lparr>RoomTopicEvent_TYPE = ''sy.room.topic'',
            MessageEvent_TYPE = ''sy.room.message'',
            time_time = 1408000000\<rparr>"

text \<open>
  A private room \<^verbatim>\<open>!r1\<close> in which \<^verbatim>\<open>@a\<close> is joined, \<^verbatim>\<open>@b\<close> is invited and \<^verbatim>\<open>@d\<close> has
  left, \<^verbatim>\<open>@c\<close> having no record; and a public room \<^verbatim>\<open>!r2\<close> without members.
\<close>

definition mem_r1 :: mem where
  "mem_r1 =
     \<lparr>mem_rooms = [(''!r1'', \<lparr>is_public = False\<rparr>), (''!r2'', \<lparr>is_public = True\<rparr>)],
      mem_members = [((''!r1'', Some ''@d''), \<lparr>member_row.membership = ''leave''\<rparr>),
                     ((''!r1'', Some ''@b''), \<lparr>member_row.membership = ''invite''\<rparr>),
                     ((''!r1'', Some ''@a''), \<lparr>member_row.membership = ''join''\<rparr>)],
      mem_messages = [],
      mem_paths = [(''topic'', JsonDumps (JStr ''hello''))]\<rparr>"

definition mk_member_event :: "string \<Rightarrow> string option \<Rightarrow> string \<Rightarrow> string option \<Rightarrow> event" where
  "mk_member_event rid auth uid m =
     \<lparr>etype = ''sy.room.member'', room_id = rid, user_id = uid, auth_user_id = auth,
      membership = m, content = JObj [], msg_id = []\<rparr>"

definition mk_message_event :: "string \<Rightarrow> string option \<Rightarrow> string \<Rightarrow> string \<Rightarrow> json \<Rightarrow> event" where
  "mk_message_event rid auth uid mid c =
     \<lparr>etype = ''sy.room.message'', room_id = rid, user_id = uid, auth_user_id = auth,
      membership = None, content = c, msg_id = mid\<rparr>"

definition mk_path_event :: "string \<Rightarrow> string \<Rightarrow> string option \<Rightarrow> event" where
  "mk_path_event ty rid auth =
     \<lparr>etype = ty, room_id = rid, user_id = [], auth_user_id = auth,
      membership = None, content = JNull, msg_id = []\<rparr>"

subsection \<open>The specification's vocabulary\<close>

text \<open>
  The user's current membership state, read off a lookup's result: the state of the first
  row, or none when there is no row.  \<open>in_join\<close> is the spec's \<^verbatim>\<open>inJoin\<close>: the current
  state is JOIN.
\<close>

definition current_state :: "member_row rows \<Rightarrow> string option" where
  "current_state r = map_option member_row.membership (first_row r)"

definition in_join :: "member_row rows \<Rightarrow> bool" where
  "in_join r = (current_state r = Some JOIN)"

text \<open>
  The access decision of \<^verbatim>\<open>getPathData\<close> in the spec's words, over rule sets: a public room
  with a non-empty public rule set wants the state in it; a private room with a non-empty
  private rule set wants the state in that; an empty applicable rule set allows.
\<close>

definition access_allowed :: "bool \<Rightarrow> string set \<Rightarrow> string set \<Rightarrow> string option \<Rightarrow> bool" where
  "access_allowed room_is_public publicRules privateRules state =
     (if room_is_public \<and> publicRules \<noteq> {} then state \<in> Some ` publicRules
      else if \<not> room_is_public \<and> privateRules \<noteq> {} then state \<in> Some ` privateRules
      else True)"

text \<open>
  One message of the system actor stored in a room: the author is \<^verbatim>\<open>"_hs_"\<close>, the id is
  \<^verbatim>\<open>"m"\<close> and the clock's seconds, the content is a text message of the given body.  No
  membership is looked up.
\<close>

definition system_message :: "'s store \<Rightarrow> env \<Rightarrow> 's \<Rightarrow> string \<Rightarrow> string \<Rightarrow> (exn + unit) \<times> 's" where
  "system_message st env s rid body =
     (case st_store_message st s ''_hs_'' rid (''m'' @ str_nat (time_time env))
             (JsonDumps (JObj [(''msgtype'', JStr ''sy.text''), (''body'', JStr body)])) of
        (d, s') \<Rightarrow> (yield_value d, s'))"

text \<open>A requester is present when \<^verbatim>\<open>event.auth_user_id\<close> is true: a non-empty string.\<close>

definition requester_present :: "event \<Rightarrow> bool" where
  "requester_present ev = truthy_str (auth_user_id ev)"

section \<open>Properties\<close>

subsection \<open>Evaluation rules\<close>

lemma yield_value_simps [simp]:
  "yield_value (Succeed v) = Inr v"
  "yield_value Fail = Inl StoreException"
  by (simp_all add: yield_value_def)

lemma membership_consts [simp]:
  "INVITE = ''invite''" "JOIN = ''join''" "KNOCK = ''knock''" "LEAVE = ''leave''"
  by (simp_all add: INVITE_def JOIN_def KNOCK_def LEAVE_def)

lemma mem_store_sel [simp]:
  "st_get_room mem_store s rid = Succeed (lookup_rows (mem_rooms s) rid)"
  "st_store_room mem_store = mem_store_room"
  "st_get_room_member mem_store s uid rid = Succeed (lookup_rows (mem_members s) (rid, uid))"
  "st_store_room_member mem_store = mem_store_room_member"
  "st_store_message mem_store = mem_store_message"
  "st_get_path_data mem_store s path = Succeed (lookup_rows (mem_paths s) path)"
  by (simp_all add: mem_store_def)

subsection \<open>The transition check\<close>

lemma truthy_rows_first_row: "truthy_rows r \<longleftrightarrow> first_row r \<noteq> None"
  by (cases r rule: first_row.cases) simp_all

lemma in_join_iff:
  "in_join r \<longleftrightarrow> (truthy_rows r \<and> map_option member_row.membership (first_row r) = Some ''join'')"
  apply (simp add: in_join_def current_state_def truthy_rows_first_row)
  apply (cases "first_row r")
   apply simp_all
  done

lemma membership_check_invite:
  "membership ev = Some INVITE \<Longrightarrow>
   membership_check ev caller target =
     (if in_join caller \<and> \<not> in_join target then None else Some (RoomError 403 ''Cannot invite.''))"
  unfolding membership_check_def Let_def in_join_iff by simp

lemma membership_check_join:
  "membership ev = Some JOIN \<Longrightarrow>
   membership_check ev caller target =
     (if auth_user_id ev = Some (user_id ev) \<and>
         (current_state caller = Some INVITE \<or> current_state caller = Some JOIN)
      then None else Some (RoomError 403 ''Cannot join.''))"
  unfolding membership_check_def Let_def current_state_def truthy_rows_first_row
  by (cases "first_row caller") auto

lemma membership_check_leave:
  "membership ev = Some LEAVE \<Longrightarrow>
   membership_check ev caller target =
     (if in_join caller \<and> auth_user_id ev = Some (user_id ev) then None
      else Some (RoomError 403 ''Cannot leave.''))"
  unfolding membership_check_def Let_def in_join_iff by auto

lemma membership_check_unknown:
  "membership ev \<noteq> Some INVITE \<Longrightarrow> membership ev \<noteq> Some JOIN \<Longrightarrow> membership ev \<noteq> Some LEAVE \<Longrightarrow>
   membership_check ev caller target =
     Some (RoomError 500 (''Unknown membership '' @ py_str (membership ev)))"
  unfolding membership_check_def Let_def by auto

lemma membership_check_None:
  "membership_check ev caller target = None \<Longrightarrow>
   membership ev = Some INVITE \<or> membership ev = Some JOIN \<or> membership ev = Some LEAVE"
  unfolding membership_check_def Let_def by (auto split: if_splits)

lemma change_membership_looked_up:
  assumes "st_get_room_member st s (auth_user_id ev) (room_id ev) = Succeed caller"
    and "st_get_room_member st s (Some (user_id ev)) (room_id ev) = Succeed target"
  shows "change_membership st env s ev b =
     (case membership_check ev caller target of
        Some e \<Rightarrow> (Inl e, s)
      | None \<Rightarrow>
          (case st_store_room_member st s (user_id ev) (room_id ev) (content ev) (membership ev) of
             (d, s') \<Rightarrow>
               (case yield_value d of
                  Inl e \<Rightarrow> (Inl e, s')
                | Inr _ \<Rightarrow>
                    if b then inject_membership_msg st env s' (room_id ev)
                                (auth_user_id ev) (user_id ev) (membership ev)
                    else (Inr (), s'))))"
  unfolding change_membership_def Let_def truthy_deferred_def
  by (simp add: assms)

lemma str_nat_clock: "str_nat 1408000000 = ''1408000000''"
  by (simp add: str_nat.simps)

subsection \<open>Invitations\<close>

text \<open>
  C3.  A request with the requested state INVITE, both membership lookups answering and
  the store accepting the writes: it succeeds exactly when the caller's current state is
  JOIN and the target's is not; then the store holds what \<^verbatim>\<open>store_room_member\<close> made of
  the target's new state INVITE (followed by the notifier's message when the broadcast
  flag is set); in every other case it ends with \<^verbatim>\<open>RoomError(403, "Cannot invite.")\<close> and
  the store as it was.
\<close>

theorem change_membership_invite:
  assumes "membership ev = Some INVITE"
    and "st_get_room_member st s (auth_user_id ev) (room_id ev) = Succeed caller"
    and "st_get_room_member st s (Some (user_id ev)) (room_id ev) = Succeed target"
    and "st_store_room_member st s (user_id ev) (room_id ev) (content ev) (Some INVITE) = (Succeed (), s1)"
    and "b \<longrightarrow> inject_membership_msg st env s1 (room_id ev) (auth_user_id ev) (user_id ev) (Some INVITE) = (Inr (), s2)"
  shows "(fst (change_membership st env s ev b) = Inr () \<longleftrightarrow> in_join caller \<and> \<not> in_join target)
    \<and> (in_join caller \<and> \<not> in_join target \<longrightarrow>
          change_membership st env s ev b = (Inr (), if b then s2 else s1))
    \<and> (\<not> (in_join caller \<and> \<not> in_join target) \<longrightarrow>
          change_membership st env s ev b = (Inl (RoomError 403 ''Cannot invite.''), s))"
proof (cases "in_join caller \<and> \<not> in_join target")
  case True
  then have "membership_check ev caller target = None"
    using assms(1) by (simp add: membership_check_invite)
  then have "change_membership st env s ev b = (Inr (), if b then s2 else s1)"
    using assms by (simp add: change_membership_looked_up)
  with True show ?thesis by simp
next
  case False
  then have "membership_check ev caller target = Some (RoomError 403 ''Cannot invite.'')"
    using assms(1) by (simp add: membership_check_invite)
  then have "change_membership st env s ev b = (Inl (RoomError 403 ''Cannot invite.''), s)"
    using assms(2,3) by (simp add: change_membership_looked_up)
  with False show ?thesis by simp
qed

theorem change_membership_invite_witness:
  "change_membership mem_store env0 mem_r1
      (mk_member_event ''!r1'' (Some ''@a'') ''@c'' (Some INVITE)) True =
     (Inr (),
      mem_r1\<lparr>mem_members :=
                ((''!r1'', Some ''@c''), \<lparr>member_row.membership = ''invite''\<rparr>) # mem_members mem_r1,
             mem_messages :=
                [(''_hs_'', ''!r1'', ''m1408000000'',
                  JsonDumps (JObj [(''msgtype'', JStr ''sy.text''),
                                   (''body'', JStr ''@a invited @c to the room.'')]))]\<rparr>)
   \<and> change_membership mem_store env0 mem_r1
      (mk_member_event ''!r1'' (Some ''@b'') ''@c'' (Some INVITE)) False =
     (Inl (RoomError 403 ''Cannot invite.''), mem_r1)
   \<and> change_membership mem_store env0 mem_r1
      (mk_member_event ''!r1'' (Some ''@a'') ''@a'' (Some INVITE)) False =
     (Inl (RoomError 403 ''Cannot invite.''), mem_r1)"
proof -
  let ?s1 = "mem_r1\<lparr>mem_members :=
                ((''!r1'', Some ''@c''), \<lparr>member_row.membership = ''invite''\<rparr>) # mem_members mem_r1\<rparr>"
  let ?s2 = "?s1\<lparr>mem_messages :=
                [(''_hs_'', ''!r1'', ''m1408000000'',
                  JsonDumps (JObj [(''msgtype'', JStr ''sy.text''),
                                   (''body'', JStr ''@a invited @c to the room.'')]))]\<rparr>"
  let ?joined = "Rows [\<lparr>member_row.membership = ''join''\<rparr>]"
  let ?invited = "Rows [\<lparr>member_row.membership = ''invite''\<rparr>]"
  let ?none = "Rows [] :: member_row rows"
  have look_a: "st_get_room_member mem_store mem_r1 (Some ''@a'') ''!r1'' = Succeed ?joined"
    and look_b: "st_get_room_member mem_store mem_r1 (Some ''@b'') ''!r1'' = Succeed ?invited"
    and look_c: "st_get_room_member mem_store mem_r1 (Some ''@c'') ''!r1'' = Succeed ?none"
    by (simp_all add: mem_r1_def lookup_rows_def)
  have states: "in_join ?joined" "\<not> in_join ?invited" "\<not> in_join ?none"
    by (simp_all add: in_join_def current_state_def)
  have stored: "st_store_room_member mem_store mem_r1 u ''!r1'' (JObj []) (Some INVITE)
      = (Succeed (), mem_r1\<lparr>mem_members :=
                ((''!r1'', Some u), \<lparr>member_row.membership = ''invite''\<rparr>) # mem_members mem_r1\<rparr>)" for u
    by (simp add: mem_store_room_member_def)
  have notify: "inject_membership_msg mem_store env0 ?s1 ''!r1'' (Some ''@a'') ''@c'' (Some INVITE)
      = (Inr (), ?s2)"
    by (simp add: inject_membership_msg_def send_message_def membership_msg_event_def
        mem_store_message_def env0_def mem_r1_def str_nat_clock)
  let ?ac = "mk_member_event ''!r1'' (Some ''@a'') ''@c'' (Some INVITE)"
  let ?bc = "mk_member_event ''!r1'' (Some ''@b'') ''@c'' (Some INVITE)"
  let ?aa = "mk_member_event ''!r1'' (Some ''@a'') ''@a'' (Some INVITE)"
  have ac: "membership ?ac = Some INVITE"
      "st_get_room_member mem_store mem_r1 (auth_user_id ?ac) (room_id ?ac) = Succeed ?joined"
      "st_get_room_member mem_store mem_r1 (Some (user_id ?ac)) (room_id ?ac) = Succeed ?none"
      "st_store_room_member mem_store mem_r1 (user_id ?ac) (room_id ?ac) (content ?ac) (Some INVITE)
         = (Succeed (), ?s1)"
      "True \<longrightarrow> inject_membership_msg mem_store env0 ?s1 (room_id ?ac) (auth_user_id ?ac)
         (user_id ?ac) (Some INVITE) = (Inr (), ?s2)"
    using look_a look_c stored [of "''@c''"] notify by (simp_all add: mk_member_event_def)
  have bc: "membership ?bc = Some INVITE"
      "st_get_room_member mem_store mem_r1 (auth_user_id ?bc) (room_id ?bc) = Succeed ?invited"
      "st_get_room_member mem_store mem_r1 (Some (user_id ?bc)) (room_id ?bc) = Succeed ?none"
      "st_store_room_member mem_store mem_r1 (user_id ?bc) (room_id ?bc) (content ?bc) (Some INVITE)
         = (Succeed (), ?s1)"
      "False \<longrightarrow> inject_membership_msg mem_store env0 ?s1 (room_id ?bc) (auth_user_id ?bc)
         (user_id ?bc) (Some INVITE) = (Inr (), ?s2)"
    using look_b look_c stored [of "''@c''"] by (simp_all add: mk_member_event_def)
  have aa: "membership ?aa = Some INVITE"
      "st_get_room_member mem_store mem_r1 (auth_user_id ?aa) (room_id ?aa) = Succeed ?joined"
      "st_get_room_member mem_store mem_r1 (Some (user_id ?aa)) (room_id ?aa) = Succeed ?joined"
      "st_store_room_member mem_store mem_r1 (user_id ?aa) (room_id ?aa) (content ?aa) (Some INVITE)
         = (Succeed (), snd (mem_store_room_member mem_r1 ''@a'' ''!r1'' (JObj []) (Some INVITE)))"
      "False \<longrightarrow> inject_membership_msg mem_store env0
          (snd (mem_store_room_member mem_r1 ''@a'' ''!r1'' (JObj []) (Some INVITE)))
          (room_id ?aa) (auth_user_id ?aa) (user_id ?aa) (Some INVITE) = (Inr (), ?s2)"
    using look_a by (simp_all add: mk_member_event_def mem_store_room_member_def)
  show ?thesis
    using change_membership_invite [OF ac] change_membership_invite [OF bc]
      change_membership_invite [OF aa] states
    by simp
qed

subsection \<open>The notifier and the paths of \<^verbatim>\<open>change_membership\<close>\<close>

lemma send_message_system:
  "auth_user_id ev = None \<Longrightarrow>
   send_message st s ev =
     (case st_store_message st s (user_id ev) (room_id ev) (msg_id ev) (JsonDumps (content ev)) of
        (d, s') \<Rightarrow> (yield_value d, s'))"
  unfolding send_message_def Let_def by simp

lemma send_membership_msg_event:
  "send_message st s (membership_msg_event env rid body) = system_message st env s rid body"
  by (simp add: send_message_system system_message_def membership_msg_event_def)

lemma yield_value_not_RoomError: "yield_value d \<noteq> Inl (RoomError c m)"
  by (cases d) simp_all

lemma system_message_not_RoomError: "fst (system_message st env s rid body) \<noteq> Inl (RoomError c m)"
  unfolding system_message_def
  by (cases "st_store_message st s ''_hs_'' rid (''m'' @ str_nat (time_time env))
             (JsonDumps (JObj [(''msgtype'', JStr ''sy.text''), (''body'', JStr body)]))")
     (simp add: yield_value_not_RoomError)

lemma inject_membership_msg_eq:
  "inject_membership_msg st env s rid source target mship =
     (if mship = Some INVITE then
        system_message st env s rid (py_str source @ '' invited '' @ target @ '' to the room.'')
      else if mship = Some JOIN then system_message st env s rid (target @ '' joined the room.'')
      else if mship = Some LEAVE then system_message st env s rid (target @ '' left the room.'')
      else (Inl (RoomError 500 (''Unknown membership value '' @ py_str mship)), s))"
  unfolding inject_membership_msg_def by (simp add: send_membership_msg_event)

lemma inject_not_RoomError:
  "mship = Some INVITE \<or> mship = Some JOIN \<or> mship = Some LEAVE \<Longrightarrow>
   fst (inject_membership_msg st env s rid source target mship) \<noteq> Inl (RoomError c m)"
  unfolding inject_membership_msg_eq
  by (auto simp: system_message_not_RoomError simp del: membership_consts)

lemma change_membership_caller_unbound:
  "st_get_room_member st s (auth_user_id ev) (room_id ev) = Fail \<Longrightarrow>
   change_membership st env s ev b = (Inl (UnboundLocalError ''caller''), s)"
  unfolding change_membership_def Let_def truthy_deferred_def by simp

lemma change_membership_target_unbound:
  "st_get_room_member st s (auth_user_id ev) (room_id ev) = Succeed caller \<Longrightarrow>
   st_get_room_member st s (Some (user_id ev)) (room_id ev) = Fail \<Longrightarrow>
   change_membership st env s ev b = (Inl (UnboundLocalError ''target''), s)"
  unfolding change_membership_def Let_def truthy_deferred_def by simp

subsection \<open>Runs on the in-memory store\<close>

lemma change_membership_mem:
  "change_membership mem_store env s ev b =
     (case membership_check ev (lookup_rows (mem_members s) (room_id ev, auth_user_id ev))
             (lookup_rows (mem_members s) (room_id ev, Some (user_id ev))) of
        Some e \<Rightarrow> (Inl e, s)
      | None \<Rightarrow>
          (case st_store_room_member mem_store s (user_id ev) (room_id ev) (content ev) (membership ev) of
             (d, s') \<Rightarrow>
               (case yield_value d of
                  Inl e \<Rightarrow> (Inl e, s')
                | Inr _ \<Rightarrow>
                    if b then inject_membership_msg mem_store env s' (room_id ev)
                                (auth_user_id ev) (user_id ev) (membership ev)
                    else (Inr (), s'))))"
  by (rule change_membership_looked_up) simp_all

lemma system_message_mem:
  "system_message mem_store env0 s rid body =
     (Inr (), s\<lparr>mem_messages := mem_messages s @
        [(''_hs_'', rid, ''m1408000000'',
          JsonDumps (JObj [(''msgtype'', JStr ''sy.text''), (''body'', JStr body)]))]\<rparr>)"
  by (simp add: system_message_def mem_store_message_def env0_def str_nat_clock)

lemma mem_r1_lookups:
  "lookup_rows (mem_members mem_r1) (''!r1'', Some ''@a'') = Rows [\<lparr>member_row.membership = ''join''\<rparr>]"
  "lookup_rows (mem_members mem_r1) (''!r1'', Some ''@b'') = Rows [\<lparr>member_row.membership = ''invite''\<rparr>]"
  "lookup_rows (mem_members mem_r1) (''!r1'', Some ''@c'') = Rows []"
  "lookup_rows (mem_members mem_r1) (''!r1'', Some ''@d'') = Rows [\<lparr>member_row.membership = ''leave''\<rparr>]"
  by (simp_all add: mem_r1_def lookup_rows_def)

lemma mk_member_event_sel:
  "room_id (mk_member_event rid auth uid m) = rid"
  "user_id (mk_member_event rid auth uid m) = uid"
  "auth_user_id (mk_member_event rid auth uid m) = auth"
  "membership (mk_member_event rid auth uid m) = m"
  "content (mk_member_event rid auth uid m) = JObj []"
  by (simp_all add: mk_member_event_def)

lemma current_state_Rows:
  "current_state (Rows []) = None"
  "current_state (Rows (r # rs)) = Some (member_row.membership r)"
  "current_state NoneRows = None"
  by (simp_all add: current_state_def)

subsection \<open>Joining\<close>

text \<open>
  C4.  A request with the requested state JOIN, both membership lookups answering and the
  store accepting the writes: it succeeds exactly when the caller is the target and the
  caller's current state is INVITE or JOIN; every other request ends with
  \<^verbatim>\<open>RoomError(403, "Cannot join.")\<close> and the store as it was, in particular one from a
  caller with no record or in state LEAVE; a caller already in JOIN who joins again
  succeeds.
\<close>

theorem change_membership_join:
  assumes "membership ev = Some JOIN"
    and "st_get_room_member st s (auth_user_id ev) (room_id ev) = Succeed caller"
    and "st_get_room_member st s (Some (user_id ev)) (room_id ev) = Succeed target"
    and "st_store_room_member st s (user_id ev) (room_id ev) (content ev) (Some JOIN) = (Succeed (), s1)"
    and "b \<longrightarrow> inject_membership_msg st env s1 (room_id ev) (auth_user_id ev) (user_id ev) (Some JOIN) = (Inr (), s2)"
  shows "(fst (change_membership st env s ev b) = Inr () \<longleftrightarrow>
            auth_user_id ev = Some (user_id ev) \<and>
            (current_state caller = Some INVITE \<or> current_state caller = Some JOIN))
    \<and> (fst (change_membership st env s ev b) = Inr () \<longrightarrow>
          change_membership st env s ev b = (Inr (), if b then s2 else s1))
    \<and> (fst (change_membership st env s ev b) \<noteq> Inr () \<longrightarrow>
          change_membership st env s ev b = (Inl (RoomError 403 ''Cannot join.''), s))
    \<and> (current_state caller = None \<or> current_state caller = Some LEAVE \<longrightarrow>
          change_membership st env s ev b = (Inl (RoomError 403 ''Cannot join.''), s))
    \<and> (auth_user_id ev = Some (user_id ev) \<and> in_join caller \<longrightarrow>
          change_membership st env s ev b = (Inr (), if b then s2 else s1))"
proof (cases "auth_user_id ev = Some (user_id ev) \<and>
            (current_state caller = Some INVITE \<or> current_state caller = Some JOIN)")
  case True
  then have "membership_check ev caller target = None"
    using assms(1) by (simp add: membership_check_join)
  then have "change_membership st env s ev b = (Inr (), if b then s2 else s1)"
    using assms by (simp add: change_membership_looked_up)
  with True show ?thesis by auto
next
  case False
  then have "membership_check ev caller target = Some (RoomError 403 ''Cannot join.'')"
    using assms(1) by (simp add: membership_check_join)
  then have "change_membership st env s ev b = (Inl (RoomError 403 ''Cannot join.''), s)"
    using assms(2,3) by (simp add: change_membership_looked_up)
  with False show ?thesis by (auto simp: in_join_def)
qed

theorem change_membership_join_witness:
  "change_membership mem_store env0 mem_r1
      (mk_member_event ''!r1'' (Some ''@b'') ''@b'' (Some JOIN)) False =
     (Inr (), mem_r1\<lparr>mem_members :=
                ((''!r1'', Some ''@b''), \<lparr>member_row.membership = ''join''\<rparr>) # mem_members mem_r1\<rparr>)
   \<and> change_membership mem_store env0 mem_r1
      (mk_member_event ''!r1'' (Some ''@a'') ''@a'' (Some JOIN)) False =
     (Inr (), mem_r1\<lparr>mem_members :=
                ((''!r1'', Some ''@a''), \<lparr>member_row.membership = ''join''\<rparr>) # mem_members mem_r1\<rparr>)
   \<and> change_membership mem_store env0 mem_r1
      (mk_member_event ''!r1'' (Some ''@c'') ''@c'' (Some JOIN)) False =
     (Inl (RoomError 403 ''Cannot join.''), mem_r1)
   \<and> change_membership mem_store env0 mem_r1
      (mk_member_event ''!r1'' (Some ''@d'') ''@d'' (Some JOIN)) False =
     (Inl (RoomError 403 ''Cannot join.''), mem_r1)
   \<and> change_membership mem_store env0 mem_r1
      (mk_member_event ''!r1'' (Some ''@a'') ''@b'' (Some JOIN)) False =
     (Inl (RoomError 403 ''Cannot join.''), mem_r1)"
proof -
  have hyps:
    "membership (mk_member_event ''!r1'' (Some u) v (Some JOIN)) = Some JOIN"
    "st_get_room_member mem_store mem_r1 (auth_user_id (mk_member_event ''!r1'' (Some u) v (Some JOIN)))
        (room_id (mk_member_event ''!r1'' (Some u) v (Some JOIN)))
      = Succeed (lookup_rows (mem_members mem_r1) (''!r1'', Some u))"
    "st_get_room_member mem_store mem_r1 (Some (user_id (mk_member_event ''!r1'' (Some u) v (Some JOIN))))
        (room_id (mk_member_event ''!r1'' (Some u) v (Some JOIN)))
      = Succeed (lookup_rows (mem_members mem_r1) (''!r1'', Some v))"
    "st_store_room_member mem_store mem_r1 (user_id (mk_member_event ''!r1'' (Some u) v (Some JOIN)))
        (room_id (mk_member_event ''!r1'' (Some u) v (Some JOIN)))
        (content (mk_member_event ''!r1'' (Some u) v (Some JOIN))) (Some JOIN)
      = (Succeed (), mem_r1\<lparr>mem_members :=
                ((''!r1'', Some v), \<lparr>member_row.membership = ''join''\<rparr>) # mem_members mem_r1\<rparr>)"
    "False \<longrightarrow> inject_membership_msg mem_store env0
        (mem_r1\<lparr>mem_members :=
                ((''!r1'', Some v), \<lparr>member_row.membership = ''join''\<rparr>) # mem_members mem_r1\<rparr>)
        (room_id (mk_member_event ''!r1'' (Some u) v (Some JOIN)))
        (auth_user_id (mk_member_event ''!r1'' (Some u) v (Some JOIN)))
        (user_id (mk_member_event ''!r1'' (Some u) v (Some JOIN))) (Some JOIN) = (Inr (), mem_r1)"
    for u v
    by (simp_all add: mk_member_event_sel mem_store_room_member_def)
  note run = change_membership_join [OF hyps]
  have 1: "change_membership mem_store env0 mem_r1
      (mk_member_event ''!r1'' (Some ''@b'') ''@b'' (Some JOIN)) False =
     (Inr (), mem_r1\<lparr>mem_members :=
                ((''!r1'', Some ''@b''), \<lparr>member_row.membership = ''join''\<rparr>) # mem_members mem_r1\<rparr>)"
    using run [of "''@b''" "''@b''"] by (simp add: mem_r1_lookups current_state_Rows mk_member_event_sel)
  have 2: "change_membership mem_store env0 mem_r1
      (mk_member_event ''!r1'' (Some ''@a'') ''@a'' (Some JOIN)) False =
     (Inr (), mem_r1\<lparr>mem_members :=
                ((''!r1'', Some ''@a''), \<lparr>member_row.membership = ''join''\<rparr>) # mem_members mem_r1\<rparr>)"
    using run [of "''@a''" "''@a''"] by (simp add: mem_r1_lookups current_state_Rows mk_member_event_sel)
  have 3: "change_membership mem_store env0 mem_r1
      (mk_member_event ''!r1'' (Some ''@c'') ''@c'' (Some JOIN)) False =
     (Inl (RoomError 403 ''Cannot join.''), mem_r1)"
    using run [of "''@c''" "''@c''", THEN conjunct2, THEN conjunct2, THEN conjunct2, THEN conjunct1]
    by (simp add: mem_r1_lookups current_state_Rows mk_member_event_sel)
  have 4: "change_membership mem_store env0 mem_r1
      (mk_member_event ''!r1'' (Some ''@d'') ''@d'' (Some JOIN)) False =
     (Inl (RoomError 403 ''Cannot join.''), mem_r1)"
    using run [of "''@d''" "''@d''", THEN conjunct2, THEN conjunct2, THEN conjunct2, THEN conjunct1]
    by (simp add: mem_r1_lookups current_state_Rows mk_member_event_sel)
  have 5: "change_membership mem_store env0 mem_r1
      (mk_member_event ''!r1'' (Some ''@a'') ''@b'' (Some JOIN)) False =
     (Inl (RoomError 403 ''Cannot join.''), mem_r1)"
    using run [of "''@a''" "''@b''"] by (simp add: mem_r1_lookups current_state_Rows mk_member_event_sel)
  from 1 2 3 4 5 show ?thesis by (intro conjI)
qed

subsection \<open>Rejected requests\<close>

text \<open>
  C7.  With both membership lookups answering, a requested state other than INVITE, JOIN
  and LEAVE (KNOCK among them, and a missing one) ends with
  \<^verbatim>\<open>RoomError(500, "Unknown membership ...")\<close> and the store as it was; and whenever
  \<^verbatim>\<open>change_membership\<close> ends with a \<^verbatim>\<open>RoomError\<close>, whatever its status, the store is
  as it was before the call: no membership was written.
\<close>

theorem change_membership_rejected:
  "(st_get_room_member st s (auth_user_id ev) (room_id ev) = Succeed caller \<and>
    st_get_room_member st s (Some (user_id ev)) (room_id ev) = Succeed target \<and>
    membership ev \<noteq> Some INVITE \<and> membership ev \<noteq> Some JOIN \<and> membership ev \<noteq> Some LEAVE \<longrightarrow>
      change_membership st env s ev b =
        (Inl (RoomError 500 (''Unknown membership '' @ py_str (membership ev))), s))
   \<and> (fst (change_membership st env s ev b) = Inl (RoomError c m) \<longrightarrow>
        snd (change_membership st env s ev b) = s)"
proof (intro conjI impI)
  assume "st_get_room_member st s (auth_user_id ev) (room_id ev) = Succeed caller \<and>
    st_get_room_member st s (Some (user_id ev)) (room_id ev) = Succeed target \<and>
    membership ev \<noteq> Some INVITE \<and> membership ev \<noteq> Some JOIN \<and> membership ev \<noteq> Some LEAVE"
  then show "change_membership st env s ev b =
        (Inl (RoomError 500 (''Unknown membership '' @ py_str (membership ev))), s)"
    by (simp add: change_membership_looked_up membership_check_unknown del: membership_consts)
next
  assume rejected: "fst (change_membership st env s ev b) = Inl (RoomError c m)"
  show "snd (change_membership st env s ev b) = s"
  proof (cases "st_get_room_member st s (auth_user_id ev) (room_id ev)")
    case Fail
    then show ?thesis by (simp add: change_membership_caller_unbound)
  next
    case (Succeed caller)
    note caller = this
    show ?thesis
    proof (cases "st_get_room_member st s (Some (user_id ev)) (room_id ev)")
      case Fail
      with caller show ?thesis by (simp add: change_membership_target_unbound)
    next
      case (Succeed target)
      note looked_up = change_membership_looked_up [OF caller Succeed, of env b]
      show ?thesis
      proof (cases "membership_check ev caller target")
        case (Some e)
        with looked_up show ?thesis by simp
      next
        case None
        note known = membership_check_None [OF None]
        obtain d s' where stored:
          "st_store_room_member st s (user_id ev) (room_id ev) (content ev) (membership ev) = (d, s')"
          by (cases "st_store_room_member st s (user_id ev) (room_id ev) (content ev) (membership ev)")
        show ?thesis
        proof (cases d)
          case Fail
          with looked_up None stored rejected show ?thesis by simp
        next
          case (Succeed u)
          show ?thesis
          proof (cases b)
            case True
            with looked_up None stored Succeed
            have "change_membership st env s ev b =
                inject_membership_msg st env s' (room_id ev) (auth_user_id ev) (user_id ev) (membership ev)"
              by simp
            with rejected inject_not_RoomError [OF known, where st = st and env = env and s = s'
                and rid = "room_id ev" and source = "auth_user_id ev" and target = "user_id ev"
                and c = c and m = m]
            show ?thesis by simp
          next
            case False
            with looked_up None stored Succeed rejected show ?thesis by simp
          qed
        qed
      qed
    qed
  qed
qed

theorem change_membership_rejected_witness:
  "change_membership mem_store env0 mem_r1
      (mk_member_event ''!r1'' (Some ''@a'') ''@a'' (Some KNOCK)) True =
     (Inl (RoomError 500 ''Unknown membership knock''), mem_r1)
   \<and> snd (change_membership mem_store env0 mem_r1
      (mk_member_event ''!r1'' (Some ''@b'') ''@c'' (Some INVITE)) True) = mem_r1"
proof -
  have knock: "change_membership mem_store env0 mem_r1
      (mk_member_event ''!r1'' (Some ''@a'') ''@a'' (Some KNOCK)) True =
     (Inl (RoomError 500 ''Unknown membership knock''), mem_r1)"
    using change_membership_rejected
      [where st = mem_store and s = mem_r1 and env = env0 and b = True
        and ev = "mk_member_event ''!r1'' (Some ''@a'') ''@a'' (Some KNOCK)"
        and caller = "Rows [\<lparr>member_row.membership = ''join''\<rparr>]"
        and target = "Rows [\<lparr>member_row.membership = ''join''\<rparr>]", THEN conjunct1]
    by (simp add: mk_member_event_sel mem_r1_lookups)
  have refused: "fst (change_membership mem_store env0 mem_r1
      (mk_member_event ''!r1'' (Some ''@b'') ''@c'' (Some INVITE)) True)
      = Inl (RoomError 403 ''Cannot invite.'')"
    by (simp add: change_membership_mem membership_check_invite mk_member_event_sel
        mem_r1_lookups in_join_def current_state_Rows)
  have unchanged: "snd (change_membership mem_store env0 mem_r1
      (mk_member_event ''!r1'' (Some ''@b'') ''@c'' (Some INVITE)) True) = mem_r1"
    using change_membership_rejected
      [where st = mem_store and s = mem_r1 and env = env0 and b = True
        and ev = "mk_member_event ''!r1'' (Some ''@b'') ''@c'' (Some INVITE)"
        and c = 403 and m = "''Cannot invite.''", THEN conjunct2] refused
    by blast
  from knock unchanged show ?thesis by (intro conjI)
qed

subsection \<open>The membership message\<close>

text \<open>
  C9.  \<^verbatim>\<open>_inject_membership_msg\<close> stores one message of the system actor \<^verbatim>\<open>"_hs_"\<close> whose
  body is the template of the new state: "source invited target to the room." for INVITE,
  "target joined the room." for JOIN, "target left the room." for LEAVE; any other state
  ends with \<^verbatim>\<open>RoomError(500, "Unknown membership value ...")\<close> and nothing stored.  The
  event it sends has no requester, so \<^verbatim>\<open>send_message\<close> stores it without looking any
  membership up.  When \<^verbatim>\<open>change_membership\<close> without the broadcast flag succeeds and
  leaves the store in \<open>s1\<close>, the same call with the flag is the notifier run on \<open>s1\<close>, with
  the caller as source, the target and the new state.
\<close>

theorem inject_membership_msg_spec:
  "inject_membership_msg st env s rid source target (Some INVITE) =
      system_message st env s rid (py_str source @ '' invited '' @ target @ '' to the room.'')
   \<and> inject_membership_msg st env s rid source target (Some JOIN) =
      system_message st env s rid (target @ '' joined the room.'')
   \<and> inject_membership_msg st env s rid source target (Some LEAVE) =
      system_message st env s rid (target @ '' left the room.'')
   \<and> (mship \<noteq> Some INVITE \<and> mship \<noteq> Some JOIN \<and> mship \<noteq> Some LEAVE \<longrightarrow>
        inject_membership_msg st env s rid source target mship =
          (Inl (RoomError 500 (''Unknown membership value '' @ py_str mship)), s))
   \<and> user_id (membership_msg_event env rid body) = ''_hs_''
   \<and> auth_user_id (membership_msg_event env rid body) = None
   \<and> send_message st s (membership_msg_event env rid body) = system_message st env s rid body
   \<and> (change_membership st env s ev False = (Inr (), s1) \<longrightarrow>
        (membership ev = Some INVITE \<or> membership ev = Some JOIN \<or> membership ev = Some LEAVE) \<and>
        change_membership st env s ev True =
          inject_membership_msg st env s1 (room_id ev) (auth_user_id ev) (user_id ev) (membership ev))"
proof -
  have templates:
    "inject_membership_msg st env s rid source target (Some INVITE) =
      system_message st env s rid (py_str source @ '' invited '' @ target @ '' to the room.'')"
    "inject_membership_msg st env s rid source target (Some JOIN) =
      system_message st env s rid (target @ '' joined the room.'')"
    "inject_membership_msg st env s rid source target (Some LEAVE) =
      system_message st env s rid (target @ '' left the room.'')"
    "mship \<noteq> Some INVITE \<and> mship \<noteq> Some JOIN \<and> mship \<noteq> Some LEAVE \<longrightarrow>
        inject_membership_msg st env s rid source target mship =
          (Inl (RoomError 500 (''Unknown membership value '' @ py_str mship)), s)"
    by (simp_all add: inject_membership_msg_eq)
  have actor:
    "user_id (membership_msg_event env rid body) = ''_hs_''"
    "auth_user_id (membership_msg_event env rid body) = None"
    by (simp_all add: membership_msg_event_def)
  have after_write:
    "(membership ev = Some INVITE \<or> membership ev = Some JOIN \<or> membership ev = Some LEAVE) \<and>
     change_membership st env s ev True =
       inject_membership_msg st env s1 (room_id ev) (auth_user_id ev) (user_id ev) (membership ev)"
    if ok: "change_membership st env s ev False = (Inr (), s1)"
  proof (cases "st_get_room_member st s (auth_user_id ev) (room_id ev)")
    case Fail
    with ok show ?thesis by (simp add: change_membership_caller_unbound)
  next
    case (Succeed caller)
    note caller = this
    show ?thesis
    proof (cases "st_get_room_member st s (Some (user_id ev)) (room_id ev)")
      case Fail
      with ok caller show ?thesis by (simp add: change_membership_target_unbound)
    next
      case (Succeed target)
      note looked_up = change_membership_looked_up [OF caller Succeed, of env]
      show ?thesis
      proof (cases "membership_check ev caller target")
        case (Some e)
        with ok looked_up [of False] show ?thesis by simp
      next
        case None
        obtain d s' where stored:
          "st_store_room_member st s (user_id ev) (room_id ev) (content ev) (membership ev) = (d, s')"
          by (cases "st_store_room_member st s (user_id ev) (room_id ev) (content ev) (membership ev)")
        show ?thesis
        proof (cases d)
          case Fail
          with ok looked_up [of False] None stored show ?thesis by simp
        next
          case (Succeed u)
          with ok looked_up [of False] None stored have "s' = s1" by simp
          with looked_up [of True] None stored Succeed membership_check_None [OF None]
          show ?thesis by simp
        qed
      qed
    qed
  qed
  from templates actor send_membership_msg_event [of st s env rid body] after_write
  show ?thesis by blast
qed

theorem inject_membership_msg_witness:
  "inject_membership_msg mem_store env0 mem_r1 ''!r1'' (Some ''@a'') ''@c'' (Some INVITE) =
     (Inr (), mem_r1\<lparr>mem_messages :=
        [(''_hs_'', ''!r1'', ''m1408000000'',
          JsonDumps (JObj [(''msgtype'', JStr ''sy.text''),
                           (''body'', JStr ''@a invited @c to the room.'')]))]\<rparr>)
   \<and> inject_membership_msg mem_store env0 mem_r1 ''!r1'' (Some ''@a'') ''@c'' (Some KNOCK) =
     (Inl (RoomError 500 ''Unknown membership value knock''), mem_r1)
   \<and> change_membership mem_store env0 mem_r1
       (mk_member_event ''!r1'' (Some ''@b'') ''@b'' (Some JOIN)) True =
     (Inr (), mem_r1\<lparr>mem_members :=
                ((''!r1'', Some ''@b''), \<lparr>member_row.membership = ''join''\<rparr>) # mem_members mem_r1,
              mem_messages :=
        [(''_hs_'', ''!r1'', ''m1408000000'',
          JsonDumps (JObj [(''msgtype'', JStr ''sy.text''),
                           (''body'', JStr ''@b joined the room.'')]))]\<rparr>)"
proof -
  let ?ev = "mk_member_event ''!r1'' (Some ''@b'') ''@b'' (Some JOIN)"
  let ?s1 = "mem_r1\<lparr>mem_members :=
                ((''!r1'', Some ''@b''), \<lparr>member_row.membership = ''join''\<rparr>) # mem_members mem_r1\<rparr>"
  have no_messages: "mem_messages mem_r1 = []"
    by (simp add: mem_r1_def)
  have invite: "inject_membership_msg mem_store env0 mem_r1 ''!r1'' (Some ''@a'') ''@c'' (Some INVITE) =
     (Inr (), mem_r1\<lparr>mem_messages :=
        [(''_hs_'', ''!r1'', ''m1408000000'',
          JsonDumps (JObj [(''msgtype'', JStr ''sy.text''),
                           (''body'', JStr ''@a invited @c to the room.'')]))]\<rparr>)"
    using inject_membership_msg_spec [of mem_store env0 mem_r1 "''!r1''" "Some ''@a''" "''@c''",
        THEN conjunct1]
    by (simp add: system_message_mem no_messages)
  have knock: "inject_membership_msg mem_store env0 mem_r1 ''!r1'' (Some ''@a'') ''@c'' (Some KNOCK) =
     (Inl (RoomError 500 ''Unknown membership value knock''), mem_r1)"
    using inject_membership_msg_spec [of mem_store env0 mem_r1 "''!r1''" "Some ''@a''" "''@c''"
        "Some KNOCK", THEN conjunct2, THEN conjunct2, THEN conjunct2, THEN conjunct1]
    by simp
  have quiet: "change_membership mem_store env0 mem_r1 ?ev False = (Inr (), ?s1)"
    by (simp add: change_membership_mem membership_check_join mk_member_event_sel
        mem_r1_lookups current_state_Rows mem_store_room_member_def)
  have loud: "change_membership mem_store env0 mem_r1 ?ev True =
      inject_membership_msg mem_store env0 ?s1 (room_id ?ev) (auth_user_id ?ev) (user_id ?ev)
        (membership ?ev)"
    using inject_membership_msg_spec [where st = mem_store and env = env0 and s = mem_r1
        and ev = ?ev and ?s1.0 = ?s1, THEN conjunct2, THEN conjunct2, THEN conjunct2,
        THEN conjunct2, THEN conjunct2, THEN conjunct2, THEN conjunct2] quiet
    by blast
  have joined: "inject_membership_msg mem_store env0 ?s1 ''!r1'' (Some ''@b'') ''@b'' (Some JOIN) =
      system_message mem_store env0 ?s1 ''!r1'' (''@b joined the room.'')"
    using inject_membership_msg_spec [of mem_store env0 ?s1 "''!r1''" "Some ''@b''" "''@b''",
        THEN conjunct2, THEN conjunct1]
    by simp
  from loud joined have "change_membership mem_store env0 mem_r1 ?ev True =
     (Inr (), mem_r1\<lparr>mem_members :=
                ((''!r1'', Some ''@b''), \<lparr>member_row.membership = ''join''\<rparr>) # mem_members mem_r1,
              mem_messages :=
        [(''_hs_'', ''!r1'', ''m1408000000'',
          JsonDumps (JObj [(''msgtype'', JStr ''sy.text''),
                           (''body'', JStr ''@b joined the room.'')]))]\<rparr>)"
    by (simp add: mk_member_event_sel system_message_mem no_messages)
  with invite knock show ?thesis by (intro conjI)
qed

subsection \<open>The room lookup of \<^verbatim>\<open>change_membership\<close>\<close>

text \<open>
  C1.  The claim is that a request for a room that does not exist ends with
  \<^verbatim>\<open>RoomError(403, "Room does not exist")\<close> before any membership is looked up.  The source
  tests the \<^verbatim>\<open>Deferred\<close> that \<^verbatim>\<open>get_room\<close> returns, not its result (\<^verbatim>\<open>get_room_path_data\<close>
  has the \<^verbatim>\<open>yield\<close>), so the test never fires: on the empty store, where the room lookup
  answers with no row, an invitation goes on to the membership lookups and ends with
  "Cannot invite.".
\<close>

theorem change_membership_missing_room:
  "yield_value (st_get_room mem_store mem_empty ''!ghost'') = Inr (Rows [])
   \<and> change_membership mem_store env0 mem_empty
        (mk_member_event ''!ghost'' (Some ''@a'') ''@b'' (Some INVITE)) False =
      (Inl (RoomError 403 ''Cannot invite.''), mem_empty)"
  by (simp add: change_membership_mem membership_check_invite mk_member_event_sel
      mem_empty_def lookup_rows_def in_join_def current_state_Rows)

text \<open>No request at all ends with the room error.\<close>

lemma change_membership_never_room_missing:
  "fst (change_membership st env s ev b) \<noteq> Inl (RoomError 403 ''Room does not exist'')"
proof
  assume "fst (change_membership st env s ev b) = Inl (RoomError 403 ''Room does not exist'')"
  then show False
    unfolding change_membership_def Let_def truthy_deferred_def membership_check_def
      inject_membership_msg_eq system_message_def
    by (auto split: sum.splits option.splits prod.splits if_splits deferred.splits
        simp: yield_value_def)
qed

subsection \<open>Membership lookups that fail\<close>

text \<open>
  C2.  The claim is that a membership lookup that fails is discarded and the user counts as
  having no membership.  The \<^verbatim>\<open>except: pass\<close> discards the failure, but the variable the
  lookup was to bind stays unbound, and the next statement reads it: the request ends with
  \<^verbatim>\<open>UnboundLocalError\<close>, for the caller's lookup as well as for the target's, here on an
  invitation by the joined \<^verbatim>\<open>@a\<close> for \<^verbatim>\<open>@c\<close>, who has no record.
\<close>

theorem change_membership_lookup_fault:
  "change_membership (failing_lookup_store (Some ''@a'')) env0 mem_r1
      (mk_member_event ''!r1'' (Some ''@a'') ''@c'' (Some INVITE)) False =
     (Inl (UnboundLocalError ''caller''), mem_r1)
   \<and> change_membership (failing_lookup_store (Some ''@c'')) env0 mem_r1
      (mk_member_event ''!r1'' (Some ''@a'') ''@c'' (Some INVITE)) False =
     (Inl (UnboundLocalError ''target''), mem_r1)"
  by (simp add: change_membership_caller_unbound
      change_membership_target_unbound [where caller = "Rows [\<lparr>member_row.membership = ''join''\<rparr>]"]
      failing_lookup_store_def mk_member_event_sel mem_r1_lookups)

subsection \<open>Sending a message\<close>

lemma get_joined_or_throw_eq:
  "st_get_room_member st s uid rid = Succeed member \<Longrightarrow>
   get_joined_or_throw st s uid rid =
     (if in_join member then Inr member else Inl (RoomError 403 not_joined_msg))"
  unfolding get_joined_or_throw_def in_join_def current_state_def
  by (cases "first_row member") simp_all

lemma in_join_Rows:
  "in_join (Rows [\<lparr>member_row.membership = ''join''\<rparr>])"
  "\<not> in_join (Rows [\<lparr>member_row.membership = ''invite''\<rparr>])"
  "\<not> in_join (Rows [])"
  by (simp_all add: in_join_def current_state_def)

lemma mem_r1_rooms:
  "lookup_rows (mem_rooms mem_r1) ''!r1'' = Rows [\<lparr>is_public = False\<rparr>]"
  "lookup_rows (mem_rooms mem_r1) ''!r2'' = Rows [\<lparr>is_public = True\<rparr>]"
  by (simp_all add: mem_r1_def lookup_rows_def)

lemma mem_r1_tables:
  "mem_messages mem_r1 = []"
  "lookup_rows (mem_paths mem_r1) ''topic'' = Rows [JsonDumps (JStr ''hello'')]"
  "lookup_rows (mem_members mem_r1) (''!r2'', Some []) = Rows []"
  by (simp_all add: mem_r1_def lookup_rows_def)

lemma mk_message_event_sel:
  "room_id (mk_message_event rid auth uid mid c) = rid"
  "user_id (mk_message_event rid auth uid mid c) = uid"
  "auth_user_id (mk_message_event rid auth uid mid c) = auth"
  "msg_id (mk_message_event rid auth uid mid c) = mid"
  "content (mk_message_event rid auth uid mid c) = c"
  by (simp_all add: mk_message_event_def)

lemma mk_path_event_sel:
  "etype (mk_path_event ty rid auth) = ty"
  "room_id (mk_path_event ty rid auth) = rid"
  "auth_user_id (mk_path_event ty rid auth) = auth"
  by (simp_all add: mk_path_event_def)

text \<open>
  C6.  \<^verbatim>\<open>send_message\<close> with a requester: an author other than the requester ends with
  \<^verbatim>\<open>RoomError(403, "Must send messages as yourself.")\<close>; a requester whose lookup
  answers and who is not in JOIN ends with \<^verbatim>\<open>RoomError(403, "Haven't joined room.'")\<close>;
  both with the store as it was; otherwise the outcome is that of the one
  \<^verbatim>\<open>store_message\<close> call.  Without a requester both checks are skipped and the outcome is
  that of the \<^verbatim>\<open>store_message\<close> call, whatever the memberships.
\<close>

theorem send_message_spec:
  "(requester_present ev \<and> auth_user_id ev \<noteq> Some (user_id ev) \<longrightarrow>
      send_message st s ev = (Inl (RoomError 403 ''Must send messages as yourself.''), s))
   \<and> (requester_present ev \<and> auth_user_id ev = Some (user_id ev) \<and>
        st_get_room_member st s (auth_user_id ev) (room_id ev) = Succeed member \<and>
        \<not> in_join member \<longrightarrow>
      send_message st s ev = (Inl (RoomError 403 not_joined_msg), s))
   \<and> (requester_present ev \<and> auth_user_id ev = Some (user_id ev) \<and>
        st_get_room_member st s (auth_user_id ev) (room_id ev) = Succeed member \<and>
        in_join member \<and>
        st_store_message st s (user_id ev) (room_id ev) (msg_id ev) (JsonDumps (content ev)) = (d, s') \<longrightarrow>
      send_message st s ev = (yield_value d, s'))
   \<and> (\<not> requester_present ev \<and>
        st_store_message st s (user_id ev) (room_id ev) (msg_id ev) (JsonDumps (content ev)) = (d, s') \<longrightarrow>
      send_message st s ev = (yield_value d, s'))"
proof (intro conjI impI)
  assume "requester_present ev \<and> auth_user_id ev \<noteq> Some (user_id ev)"
  then show "send_message st s ev = (Inl (RoomError 403 ''Must send messages as yourself.''), s)"
    unfolding send_message_def Let_def requester_present_def by auto
next
  assume a: "requester_present ev \<and> auth_user_id ev = Some (user_id ev) \<and>
        st_get_room_member st s (auth_user_id ev) (room_id ev) = Succeed member \<and>
        \<not> in_join member"
  then have "st_get_room_member st s (auth_user_id ev) (room_id ev) = Succeed member"
    and "\<not> in_join member" by blast+
  then have "get_joined_or_throw st s (auth_user_id ev) (room_id ev) = Inl (RoomError 403 not_joined_msg)"
    using get_joined_or_throw_eq [of st s "auth_user_id ev" "room_id ev" member] by simp
  moreover from a have "auth_user_id ev = Some (user_id ev)" and "user_id ev \<noteq> []"
    by (auto simp: requester_present_def)
  ultimately show "send_message st s ev = (Inl (RoomError 403 not_joined_msg), s)"
    unfolding send_message_def Let_def by simp
next
  assume a: "requester_present ev \<and> auth_user_id ev = Some (user_id ev) \<and>
        st_get_room_member st s (auth_user_id ev) (room_id ev) = Succeed member \<and>
        in_join member \<and>
        st_store_message st s (user_id ev) (room_id ev) (msg_id ev) (JsonDumps (content ev)) = (d, s')"
  then have "st_get_room_member st s (auth_user_id ev) (room_id ev) = Succeed member"
    and "in_join member" by blast+
  then have "get_joined_or_throw st s (auth_user_id ev) (room_id ev) = Inr member"
    using get_joined_or_throw_eq [of st s "auth_user_id ev" "room_id ev" member] by simp
  moreover from a have "auth_user_id ev = Some (user_id ev)" and "user_id ev \<noteq> []"
    and "st_store_message st s (user_id ev) (room_id ev) (msg_id ev) (JsonDumps (content ev)) = (d, s')"
    by (auto simp: requester_present_def)
  ultimately show "send_message st s ev = (yield_value d, s')"
    unfolding send_message_def Let_def by simp
next
  assume "\<not> requester_present ev \<and>
        st_store_message st s (user_id ev) (room_id ev) (msg_id ev) (JsonDumps (content ev)) = (d, s')"
  then show "send_message st s ev = (yield_value d, s')"
    unfolding send_message_def Let_def requester_present_def by simp
qed

theorem send_message_witness:
  "send_message mem_store mem_r1 (mk_message_event ''!r1'' (Some ''@a'') ''@b'' ''m1'' (JStr ''hi'')) =
     (Inl (RoomError 403 ''Must send messages as yourself.''), mem_r1)
   \<and> send_message mem_store mem_r1 (mk_message_event ''!r1'' (Some ''@b'') ''@b'' ''m1'' (JStr ''hi'')) =
     (Inl (RoomError 403 not_joined_msg), mem_r1)
   \<and> send_message mem_store mem_r1 (mk_message_event ''!r1'' (Some ''@a'') ''@a'' ''m1'' (JStr ''hi'')) =
     (Inr (), mem_r1\<lparr>mem_messages := [(''@a'', ''!r1'', ''m1'', JsonDumps (JStr ''hi''))]\<rparr>)
   \<and> send_message mem_store mem_r1 (mk_message_event ''!r1'' None ''_hs_'' ''m2'' (JStr ''hi'')) =
     (Inr (), mem_r1\<lparr>mem_messages := [(''_hs_'', ''!r1'', ''m2'', JsonDumps (JStr ''hi''))]\<rparr>)"
proof -
  have 1: "send_message mem_store mem_r1 (mk_message_event ''!r1'' (Some ''@a'') ''@b'' ''m1'' (JStr ''hi'')) =
     (Inl (RoomError 403 ''Must send messages as yourself.''), mem_r1)"
    using send_message_spec [where st = mem_store and s = mem_r1
        and ev = "mk_message_event ''!r1'' (Some ''@a'') ''@b'' ''m1'' (JStr ''hi'')", THEN conjunct1]
    by (simp add: requester_present_def mk_message_event_sel)
  have 2: "send_message mem_store mem_r1 (mk_message_event ''!r1'' (Some ''@b'') ''@b'' ''m1'' (JStr ''hi'')) =
     (Inl (RoomError 403 not_joined_msg), mem_r1)"
    using send_message_spec [where st = mem_store and s = mem_r1
        and ev = "mk_message_event ''!r1'' (Some ''@b'') ''@b'' ''m1'' (JStr ''hi'')"
        and member = "Rows [\<lparr>member_row.membership = ''invite''\<rparr>]",
        THEN conjunct2, THEN conjunct1]
    by (simp add: requester_present_def mk_message_event_sel mem_r1_lookups in_join_Rows)
  have 3: "send_message mem_store mem_r1 (mk_message_event ''!r1'' (Some ''@a'') ''@a'' ''m1'' (JStr ''hi'')) =
     (Inr (), mem_r1\<lparr>mem_messages := [(''@a'', ''!r1'', ''m1'', JsonDumps (JStr ''hi''))]\<rparr>)"
    using send_message_spec [where st = mem_store and s = mem_r1
        and ev = "mk_message_event ''!r1'' (Some ''@a'') ''@a'' ''m1'' (JStr ''hi'')"
        and member = "Rows [\<lparr>member_row.membership = ''join''\<rparr>]"
        and d = "Succeed ()"
        and s' = "mem_r1\<lparr>mem_messages := [(''@a'', ''!r1'', ''m1'', JsonDumps (JStr ''hi''))]\<rparr>",
        THEN conjunct2, THEN conjunct2, THEN conjunct1]
    by (simp add: requester_present_def mk_message_event_sel mem_r1_lookups in_join_Rows
        mem_store_message_def mem_r1_tables)
  have 4: "send_message mem_store mem_r1 (mk_message_event ''!r1'' None ''_hs_'' ''m2'' (JStr ''hi'')) =
     (Inr (), mem_r1\<lparr>mem_messages := [(''_hs_'', ''!r1'', ''m2'', JsonDumps (JStr ''hi''))]\<rparr>)"
    using send_message_spec [where st = mem_store and s = mem_r1
        and ev = "mk_message_event ''!r1'' None ''_hs_'' ''m2'' (JStr ''hi'')"
        and d = "Succeed ()"
        and s' = "mem_r1\<lparr>mem_messages := [(''_hs_'', ''!r1'', ''m2'', JsonDumps (JStr ''hi''))]\<rparr>",
        THEN conjunct2, THEN conjunct2, THEN conjunct2]
    by (simp add: requester_present_def mk_message_event_sel mem_store_message_def mem_r1_tables)
  from 1 2 3 4 show ?thesis by (intro conjI)
qed

subsection \<open>Reading a member\<close>



subsection \<open>Creating a room\<close>

text \<open>
  C8.  \<^verbatim>\<open>create_room\<close> with a configuration that has a visibility, \<open>(d, s')\<close> being what
  \<^verbatim>\<open>store_room\<close> answers: it ends with \<^verbatim>\<open>RoomError(409, "Room ID in use.")\<close> exactly when
  the store's result is \<^verbatim>\<open>None\<close> or empty, with \<^verbatim>\<open>RoomError(500, "Unable to create room.")\<close>
  exactly when the store fails, and otherwise returns the new room id.  Hence, the store
  answering a second \<^verbatim>\<open>store_room\<close> of the id it just gave by \<^verbatim>\<open>None\<close>, creating the room
  twice succeeds the first time and ends with the 409 error the second time.
\<close>

theorem create_room_spec:
  assumes "config ''visibility'' = Some v"
    and "st_store_room st s rid uid (v = ''public'') = (d, s')"
  shows "(fst (create_room st s uid rid config) = Inl (RoomError 409 ''Room ID in use.'') \<longleftrightarrow>
            d = Succeed None \<or> d = Succeed (Some []))
    \<and> (fst (create_room st s uid rid config) = Inl (RoomError 500 ''Unable to create room.'') \<longleftrightarrow>
            d = Fail)
    \<and> (\<forall>i. d = Succeed (Some i) \<and> i \<noteq> [] \<longrightarrow> create_room st s uid rid config = (Inr i, s'))
    \<and> snd (create_room st s uid rid config) = s'
    \<and> (\<forall>i uid' s''.
          d = Succeed (Some i) \<and> i \<noteq> [] \<and>
          st_store_room st s' (Some i) uid' (v = ''public'') = (Succeed None, s'') \<longrightarrow>
            create_room st s uid rid config = (Inr i, s') \<and>
            create_room st s' uid' (Some i) config = (Inl (RoomError 409 ''Room ID in use.''), s''))"
proof (cases d)
  case Fail
  with assms show ?thesis by (simp add: create_room_def)
next
  case (Succeed r)
  show ?thesis
  proof (cases r)
    case None
    with Succeed assms show ?thesis by (simp add: create_room_def)
  next
    case (Some i)
    with Succeed assms show ?thesis by (auto simp: create_room_def)
  qed
qed

theorem create_room_witness:
  "create_room mem_store mem_empty ''u1'' (Some ''!abc'') [''visibility'' \<mapsto> ''private''] =
     (Inr ''!abc'', mem_empty\<lparr>mem_rooms := [(''!abc'', \<lparr>is_public = False\<rparr>)]\<rparr>)
   \<and> create_room mem_store (mem_empty\<lparr>mem_rooms := [(''!abc'', \<lparr>is_public = False\<rparr>)]\<rparr>)
        ''u1'' (Some ''!abc'') [''visibility'' \<mapsto> ''private''] =
     (Inl (RoomError 409 ''Room ID in use.''),
      mem_empty\<lparr>mem_rooms := [(''!abc'', \<lparr>is_public = False\<rparr>)]\<rparr>)
   \<and> fst (create_room failing_room_store mem_empty ''u1'' (Some ''!abc'')
            [''visibility'' \<mapsto> ''private'']) =
     Inl (RoomError 500 ''Unable to create room.'')"
proof -
  let ?cfg = "[''visibility'' \<mapsto> ''private'']"
  let ?s1 = "mem_empty\<lparr>mem_rooms := [(''!abc'', \<lparr>is_public = False\<rparr>)]\<rparr>"
  have cfg: "?cfg ''visibility'' = Some ''private''"
    by simp
  have first: "st_store_room mem_store mem_empty (Some ''!abc'') ''u1'' (''private'' = ''public'')
      = (Succeed (Some ''!abc''), ?s1)"
    by (simp add: mem_store_room_def mem_empty_def Let_def)
  have again: "st_store_room mem_store ?s1 (Some ''!abc'') ''u1'' (''private'' = ''public'')
      = (Succeed None, ?s1)"
    by (simp add: mem_store_room_def mem_empty_def Let_def)
  have down: "st_store_room failing_room_store mem_empty (Some ''!abc'') ''u1'' (''private'' = ''public'')
      = (Fail, mem_empty)"
    by (simp add: failing_room_store_def)
  have twice: "create_room mem_store mem_empty ''u1'' (Some ''!abc'') ?cfg = (Inr ''!abc'', ?s1) \<and>
      create_room mem_store ?s1 ''u1'' (Some ''!abc'') ?cfg =
        (Inl (RoomError 409 ''Room ID in use.''), ?s1)"
    using create_room_spec [where config = ?cfg and v = "''private''", OF cfg first, THEN conjunct2, THEN conjunct2, THEN conjunct2,
        THEN conjunct2, THEN spec, THEN spec, THEN spec, of "''!abc''" "''u1''" ?s1] again
    by simp
  have fault: "fst (create_room failing_room_store mem_empty ''u1'' (Some ''!abc'') ?cfg) =
     Inl (RoomError 500 ''Unable to create room.'')"
    using create_room_spec [where config = ?cfg and v = "''private''", OF cfg down, THEN conjunct2, THEN conjunct1]
    by simp
  from twice fault show ?thesis by simp
qed

subsection \<open>Reading path data\<close>

lemma state_in_set: "state_in ms rules \<longleftrightarrow> ms \<in> Some ` set rules"
  by (cases ms) auto

text \<open>
  C5.  \<^verbatim>\<open>get_room_path_data\<close> for a room that exists, the requester's lookup answering:
  access is decided as \<open>access_allowed\<close> says, on the room's visibility, the public rules
  given (none by default), the private rules given (JOIN by default) and the requester's
  current state, none when there is no row; a topic event puts INVITE and JOIN in the place
  of the private rules, given or default, for this call.  Access allowed, the result is
  what \<^verbatim>\<open>get_path_data\<close> answers; access denied, it is a \<^verbatim>\<open>RoomError\<close> of status 403.  The
  default lists are constants of the function: no call changes them.
\<close>

theorem get_room_path_data_spec:
  assumes "st_get_room st s (room_id ev) = Succeed room"
    and "first_row room = Some r"
    and "st_get_room_member st s
           (if requester_present ev then auth_user_id ev else Some []) (room_id ev) = Succeed member"
  shows "get_room_path_data st env s ev path public_arg private_arg =
     (if access_allowed (is_public r)
           (set (case public_arg of None \<Rightarrow> [] | Some rules \<Rightarrow> rules))
           (if etype ev = RoomTopicEvent_TYPE env then {INVITE, JOIN}
            else set (case private_arg of None \<Rightarrow> [JOIN] | Some rules \<Rightarrow> rules))
           (current_state member)
      then yield_value (st_get_path_data st s path)
      else Inl (RoomError 403
             (if is_public r then ''Member does not meet public room rules.''
              else ''Member does not meet private room rules.'')))
    \<and> default_public_room_rules = [] \<and> default_private_room_rules = [JOIN]"
proof -
  have member: "st_get_room_member st s
      (if \<not> truthy_str (auth_user_id ev) then Some [] else auth_user_id ev) (room_id ev)
      = Succeed member"
    using assms(3) by (cases "truthy_str (auth_user_id ev)") (simp_all add: requester_present_def)
  show ?thesis
    unfolding get_room_path_data_def Let_def access_allowed_def
      default_public_room_rules_def default_private_room_rules_def
    by (cases "first_row member"; cases public_arg; cases private_arg)
       (simp_all add: assms(1,2) member state_in_set current_state_def)
qed

theorem get_room_path_data_witness:
  "get_room_path_data mem_store env0 mem_r1
      (mk_path_event ''sy.room.topic'' ''!r1'' (Some ''@b'')) ''topic'' None None =
     Inr (Rows [JsonDumps (JStr ''hello'')])
   \<and> get_room_path_data mem_store env0 mem_r1
      (mk_path_event ''sy.room.data'' ''!r1'' (Some ''@b'')) ''topic'' None None =
     Inl (RoomError 403 ''Member does not meet private room rules.'')
   \<and> get_room_path_data mem_store env0 mem_r1
      (mk_path_event ''sy.room.data'' ''!r1'' (Some ''@a'')) ''topic'' None None =
     Inr (Rows [JsonDumps (JStr ''hello'')])
   \<and> get_room_path_data mem_store env0 mem_r1
      (mk_path_event ''sy.room.data'' ''!r2'' None) ''topic'' None None =
     Inr (Rows [JsonDumps (JStr ''hello'')])
   \<and> get_room_path_data mem_store env0 mem_r1
      (mk_path_event ''sy.room.data'' ''!r2'' None) ''topic'' (Some [''join'']) None =
     Inl (RoomError 403 ''Member does not meet public room rules.'')"
proof -
  have topic: "RoomTopicEvent_TYPE env0 = ''sy.room.topic''"
    by (simp add: env0_def)
  have row: "first_row (Rows [r]) = Some r" for r :: room_row
    by simp
  have room1: "st_get_room mem_store mem_r1 (room_id (mk_path_event ty ''!r1'' (Some u)))
       = Succeed (Rows [\<lparr>is_public = False\<rparr>])" for ty u
    by (simp add: mk_path_event_sel mem_r1_rooms)
  have room2: "st_get_room mem_store mem_r1 (room_id (mk_path_event ty ''!r2'' None))
       = Succeed (Rows [\<lparr>is_public = True\<rparr>])" for ty
    by (simp add: mk_path_event_sel mem_r1_rooms)
  have member_a: "st_get_room_member mem_store mem_r1
       (if requester_present (mk_path_event ty ''!r1'' (Some ''@a''))
        then auth_user_id (mk_path_event ty ''!r1'' (Some ''@a'')) else Some [])
       (room_id (mk_path_event ty ''!r1'' (Some ''@a'')))
       = Succeed (Rows [\<lparr>member_row.membership = ''join''\<rparr>])" for ty
    by (simp add: mk_path_event_sel requester_present_def mem_r1_lookups)
  have member_b: "st_get_room_member mem_store mem_r1
       (if requester_present (mk_path_event ty ''!r1'' (Some ''@b''))
        then auth_user_id (mk_path_event ty ''!r1'' (Some ''@b'')) else Some [])
       (room_id (mk_path_event ty ''!r1'' (Some ''@b'')))
       = Succeed (Rows [\<lparr>member_row.membership = ''invite''\<rparr>])" for ty
    by (simp add: mk_path_event_sel requester_present_def mem_r1_lookups)
  have member_anon: "st_get_room_member mem_store mem_r1
       (if requester_present (mk_path_event ty ''!r2'' None)
        then auth_user_id (mk_path_event ty ''!r2'' None) else Some [])
       (room_id (mk_path_event ty ''!r2'' None))
       = Succeed (Rows [])" for ty
    by (simp add: mk_path_event_sel requester_present_def mem_r1_tables)
  have 1: "get_room_path_data mem_store env0 mem_r1
      (mk_path_event ''sy.room.topic'' ''!r1'' (Some ''@b'')) ''topic'' None None =
     Inr (Rows [JsonDumps (JStr ''hello'')])"
    using get_room_path_data_spec [OF room1 [of "''sy.room.topic''" "''@b''"] row member_b [of "''sy.room.topic''"],
        where env = env0 and path = "''topic''" and public_arg = "None" and private_arg = None,
        THEN conjunct1]
    by (simp add: access_allowed_def mem_r1_lookups current_state_Rows mk_path_event_sel topic
        mem_r1_tables)
  have 2: "get_room_path_data mem_store env0 mem_r1
      (mk_path_event ''sy.room.data'' ''!r1'' (Some ''@b'')) ''topic'' None None =
     Inl (RoomError 403 ''Member does not meet private room rules.'')"
    using get_room_path_data_spec [OF room1 [of "''sy.room.data''" "''@b''"] row member_b [of "''sy.room.data''"],
        where env = env0 and path = "''topic''" and public_arg = "None" and private_arg = None,
        THEN conjunct1]
    by (simp add: access_allowed_def mem_r1_lookups current_state_Rows mk_path_event_sel topic)
  have 3: "get_room_path_data mem_store env0 mem_r1
      (mk_path_event ''sy.room.data'' ''!r1'' (Some ''@a'')) ''topic'' None None =
     Inr (Rows [JsonDumps (JStr ''hello'')])"
    using get_room_path_data_spec [OF room1 [of "''sy.room.data''" "''@a''"] row member_a [of "''sy.room.data''"],
        where env = env0 and path = "''topic''" and public_arg = "None" and private_arg = None,
        THEN conjunct1]
    by (simp add: access_allowed_def mem_r1_lookups current_state_Rows mk_path_event_sel topic
        mem_r1_tables)
  have 4: "get_room_path_data mem_store env0 mem_r1
      (mk_path_event ''sy.room.data'' ''!r2'' None) ''topic'' None None =
     Inr (Rows [JsonDumps (JStr ''hello'')])"
    using get_room_path_data_spec [OF room2 [of "''sy.room.data''"] row member_anon [of "''sy.room.data''"],
        where env = env0 and path = "''topic''" and public_arg = "None" and private_arg = None,
        THEN conjunct1]
    by (simp add: access_allowed_def current_state_Rows mk_path_event_sel topic mem_r1_tables)
  have 5: "get_room_path_data mem_store env0 mem_r1
      (mk_path_event ''sy.room.data'' ''!r2'' None) ''topic'' (Some [''join'']) None =
     Inl (RoomError 403 ''Member does not meet public room rules.'')"
    using get_room_path_data_spec [OF room2 [of "''sy.room.data''"] row member_anon [of "''sy.room.data''"],
        where env = env0 and path = "''topic''" and public_arg = "Some [''join'']" and private_arg = None,
        THEN conjunct1]
    by (simp add: access_allowed_def current_state_Rows mk_path_event_sel topic)
  from 1 2 3 4 5 show ?thesis by (intro conjI)
qed

end
